theory Spec2Isabelle
  imports Complex_Main "HOL-Library.AList" "HOL-Library.Multiset"
begin

section \<open>Rotation rules engine and rotation auditor of KMGI\<close>

text \<open>
  A shallow embedding of \<^verbatim>\<open>src/rules/rules_engine.py\<close>, of the query
  \<^verbatim>\<open>get_eligible_songs\<close> of \<^verbatim>\<open>src/database/db.py\<close> and of the passes of
  \<^verbatim>\<open>src/audit/rotation_audit.py\<close> that summarise a week of plays, replay it through the
  rules engine and derive recommendations.

  Conventions of the embedding.
  \<^item> A \<^verbatim>\<open>datetime\<close> is an integer number of microseconds since the epoch (the resolution
    of Python's datetime); a difference of two datetimes divided by 60 is the rational
    number of minutes between them.
  \<^item> \<^verbatim>\<open>datetime.utcnow()\<close> is an argument \<open>now\<close>: one evaluation of a candidate
    reads one clock value.
  \<^item> A nullable column is an \<open>option\<close>; a key of the rules document that the code reads
    with \<^verbatim>\<open>.get(key, default)\<close> is an \<open>option\<close> as well, and a key it reads with
    \<^verbatim>\<open>d[key]\<close> and cannot do without is a plain field.
  \<^item> Severities are the three strings the code writes, as a datatype.
  \<^item> The numbers of the rules document (minutes, percentages, limits) are integers, its
    names are strings, and the dicts of the code whose order of keys matters are association
    lists.
\<close>

subsection \<open>Python helpers\<close>

type_synonym datetime = int

definition minutes_between :: "datetime \<Rightarrow> datetime \<Rightarrow> rat" where
  \<comment> \<open>\<^verbatim>\<open>(later - earlier).total_seconds() / 60\<close>\<close>
  "minutes_between later earlier = rat_of_int (later - earlier) / 60000000"

definition py_int :: "rat \<Rightarrow> int" where
  \<comment> \<open>\<^verbatim>\<open>int(x)\<close> truncates towards zero\<close>
  "py_int x = (if x < 0 then - \<lfloor>- x\<rfloor> else \<lfloor>x\<rfloor>)"

definition hour_of :: "datetime \<Rightarrow> int" where
  "hour_of t = (t div 3600000000) mod 24"

definition weekday_of :: "datetime \<Rightarrow> int" where
  \<comment> \<open>Monday is 0; the epoch was a Thursday\<close>
  "weekday_of t = (t div 86400000000 + 3) mod 7"

definition digit_char :: "nat \<Rightarrow> char" where
  "digit_char d = char_of (48 + d)"

fun str_nat :: "nat \<Rightarrow> string" where
  "str_nat n = (if n < 10 then [digit_char n] else str_nat (n div 10) @ [digit_char (n mod 10)])"

declare str_nat.simps [simp del]

definition str_int :: "int \<Rightarrow> string" where
  \<comment> \<open>how an f-string renders an int\<close>
  "str_int i = (if i < 0 then CHR ''-'' # str_nat (nat (- i)) else str_nat (nat i))"

definition str_opt_int :: "int option \<Rightarrow> string" where
  "str_opt_int i = (case i of None \<Rightarrow> ''None'' | Some n \<Rightarrow> str_int n)"

definition truthy_str :: "string option \<Rightarrow> bool" where
  \<comment> \<open>the truth value of a nullable string: null and the empty string are false\<close>
  "truthy_str s = (case s of None \<Rightarrow> False | Some t \<Rightarrow> t \<noteq> [])"

definition truthy_bool :: "bool option \<Rightarrow> bool" where
  \<comment> \<open>the truth value of a nullable Boolean column\<close>
  "truthy_bool b = (case b of None \<Rightarrow> False | Some v \<Rightarrow> v)"

definition str_opt :: "string option \<Rightarrow> string" where
  \<comment> \<open>how an f-string renders a nullable string: \<^verbatim>\<open>None\<close> prints as None\<close>
  "str_opt s = (case s of None \<Rightarrow> ''None'' | Some t \<Rightarrow> t)"

definition lower_char :: "char \<Rightarrow> char" where
  "lower_char c = (if 65 \<le> (of_char c :: nat) \<and> (of_char c :: nat) \<le> 90
                   then char_of ((of_char c :: nat) + 32) else c)"

definition lower :: "string \<Rightarrow> string" where
  \<comment> \<open>\<^verbatim>\<open>str.lower()\<close> on ASCII text\<close>
  "lower s = map lower_char s"

definition get_default :: "'a option \<Rightarrow> 'a \<Rightarrow> 'a" where
  \<comment> \<open>\<^verbatim>\<open>d.get(key, default)\<close>, the option being the key's entry\<close>
  "get_default entry d = (case entry of None \<Rightarrow> d | Some v \<Rightarrow> v)"

definition slice_from :: "'a list \<Rightarrow> int \<Rightarrow> 'a list" where
  \<comment> \<open>\<^verbatim>\<open>xs[k:]\<close>: a negative index counts from the end\<close>
  "slice_from xs k = (if k < 0 then drop (nat (int (length xs) + k)) xs else drop (nat k) xs)"

definition slice_to :: "'a list \<Rightarrow> int \<Rightarrow> 'a list" where
  \<comment> \<open>\<^verbatim>\<open>xs[:k]\<close>\<close>
  "slice_to xs k = (if k < 0 then take (nat (int (length xs) + k)) xs else take (nat k) xs)"

subsection \<open>Songs, play logs and rule violations\<close>

record song =
  song_id :: int
  title :: string
  artist :: string
  genre :: "string option"
  category :: "string option"
  mood :: "string option"
  tempo :: "string option"
  gender :: "string option"
  duration_seconds :: "rat option"
  min_rest_minutes :: "int option"
  explicit :: "bool option"
  is_active :: "bool option"
  last_played :: "datetime option"

record play_log =
  pl_song_id :: int
  played_at :: datetime
  pl_hour :: "int option"
  completed :: "bool option"
  skipped :: "bool option"
  pl_song :: "song option"

datatype severity = Warning | Error | Critical

record rule_violation =
  rule_name :: string
  rule_type :: string
  severity :: severity
  message :: string
  v_song_id :: "int option"
  v_song_title :: "string option"
  timestamp :: datetime

definition violation :: "datetime \<Rightarrow> song \<Rightarrow> string \<Rightarrow> string \<Rightarrow> severity \<Rightarrow> string
    \<Rightarrow> rule_violation" where
  \<comment> \<open>the constructor call every check makes, with the timestamp of \<^verbatim>\<open>__post_init__\<close>\<close>
  "violation now s name ty sev msg =
     \<lparr>rule_name = name, rule_type = ty, severity = sev, message = msg,
      v_song_id = Some (song_id s), v_song_title = Some (title s), timestamp = now\<rparr>"

subsection \<open>The rules document\<close>

record settings_cfg =
  song_separation :: "int option"
  artist_separation :: "int option"

record category_rule =
  cr_category :: "string option"
  cr_percentage :: "int option"

record restriction =
  action :: "string option"
  avoid_mood :: "string list option"
  reason :: "string option"

record rule_set =
  rs_name :: "string option"
  rs_hours :: "int list option"
  rs_rules :: "category_rule list option"
  rs_restrictions :: "restriction list option"

record tempo_cfg =
  max_consecutive_slow :: "int option"
  max_consecutive_fast :: "int option"

record gender_cfg =
  max_consecutive_same_gender :: "int option"

record hourly_limit =
  hl_genre :: string
  max_per_hour :: "int option"

record genre_cfg =
  same_genre_separation :: "int option"
  hourly_limits :: "hourly_limit list option"

record daypart_condition =
  cond_explicit :: "bool option"

record daypart_rule =
  dp_name :: "string option"
  dp_hours :: "int list option"
  dp_days :: "int list option"
  dp_condition :: "daypart_condition option"

record special_cfg =
  dayparting :: "daypart_rule list option"

record rules_doc =
  settings :: "settings_cfg option"
  hourly_rules :: "rule_set list option"
  tempo_rules :: "tempo_cfg option"
  gender_rules :: "gender_cfg option"
  genre_rules :: "genre_cfg option"
  special_rules :: "special_cfg option"
  other_sections :: "string list"

definition empty_rules :: rules_doc where
  \<comment> \<open>\<^verbatim>\<open>self.rules = {}\<close>\<close>
  "empty_rules = \<lparr>settings = None, hourly_rules = None, tempo_rules = None,
     gender_rules = None, genre_rules = None, special_rules = None, other_sections = []\<rparr>"

record play_context =
  recent_plays :: "play_log list option"
  recent_songs :: "song list option"
  ctx_hour :: "int option option"
  day_of_week :: "int option"
  hourly_genre_counts :: "(string option \<rightharpoonup> int) option"

definition empty_context :: play_context where
  "empty_context = \<lparr>recent_plays = None, recent_songs = None, ctx_hour = None,
     day_of_week = None, hourly_genre_counts = None\<rparr>"

definition current_hour :: "play_context \<Rightarrow> datetime \<Rightarrow> int option" where
  \<comment> \<open>\<^verbatim>\<open>context.get('hour', datetime.utcnow().hour)\<close>; the auditor passes the nullable
      column \<^verbatim>\<open>play.hour\<close>, so the key can be present and null\<close>
  "current_hour ctx now = (case ctx_hour ctx of None \<Rightarrow> Some (hour_of now) | Some h \<Rightarrow> h)"

definition hour_in :: "int option \<Rightarrow> int list \<Rightarrow> bool" where
  \<comment> \<open>\<^verbatim>\<open>current_hour in hours\<close>: \<^verbatim>\<open>None\<close> is in no list of numbers\<close>
  "hour_in h hs = (case h of None \<Rightarrow> False | Some n \<Rightarrow> n \<in> set hs)"

subsection \<open>The seven checks\<close>

definition no_settings :: settings_cfg where
  \<comment> \<open>the \<^verbatim>\<open>{}\<close> of \<^verbatim>\<open>self.rules.get('settings', {})\<close>\<close>
  "no_settings = \<lparr>song_separation = None, artist_separation = None\<rparr>"

definition song_separation_minutes :: "rules_doc \<Rightarrow> int" where
  \<comment> \<open>\<^verbatim>\<open>self.rules.get('settings', {}).get('song_separation', 180)\<close>\<close>
  "song_separation_minutes rules =
     get_default (song_separation (get_default (settings rules) no_settings)) 180"

definition check_song_separation :: "rules_doc \<Rightarrow> datetime \<Rightarrow> song \<Rightarrow> play_context
    \<Rightarrow> rule_violation list" where
  "check_song_separation rules now s ctx =
     (let min_separation = song_separation_minutes rules
      in case last_played s of
           None \<Rightarrow> []
         | Some lp \<Rightarrow>
             (let minutes_since = minutes_between now lp
              in if minutes_since < rat_of_int min_separation
                 then [violation now s ''Song Separation'' ''separation'' Critical
                         (''Song played '' @ str_int (py_int minutes_since)
                            @ '' minutes ago (min: '' @ str_int min_separation @ '')'')]
                 else []))"


fun artist_scan :: "datetime \<Rightarrow> int \<Rightarrow> song \<Rightarrow> play_log list \<Rightarrow> rule_violation list" where
  "artist_scan now min_separation s [] = []"
| "artist_scan now min_separation s (play # rest) =
     (case pl_song play of
        None \<Rightarrow> artist_scan now min_separation s rest
      | Some ps \<Rightarrow>
          if lower (artist ps) = lower (artist s)
          then (let minutes_since = minutes_between now (played_at play)
                in if minutes_since < rat_of_int min_separation
                   then [violation now s ''Artist Separation'' ''separation'' Critical
                           (''Artist '' @ [CHR 0x27] @ artist s @ [CHR 0x27] @ '' played ''
                              @ str_int (py_int minutes_since) @ '' min ago (min: ''
                              @ str_int min_separation @ '')'')]
                   else artist_scan now min_separation s rest)
          else artist_scan now min_separation s rest)"

definition check_artist_separation :: "rules_doc \<Rightarrow> datetime \<Rightarrow> song \<Rightarrow> play_context
    \<Rightarrow> rule_violation list" where
  "check_artist_separation rules now s ctx =
     (let min_separation =
            get_default (artist_separation (get_default (settings rules) no_settings)) 60
      in artist_scan now min_separation s (get_default (recent_plays ctx) []))"

definition restriction_violations :: "datetime \<Rightarrow> song \<Rightarrow> restriction \<Rightarrow> rule_violation list" where
  "restriction_violations now s r =
     (if action r = Some ''avoid''
      then (let avoid_moods = get_default (avoid_mood r) []
            in if (case mood s of None \<Rightarrow> False | Some m \<Rightarrow> m \<in> set avoid_moods)
               then [violation now s
                       (''Hourly Restriction: '' @ get_default (reason r) ''No reason'')
                       ''hourly'' Error
                       (''Mood '' @ [CHR 0x27] @ str_opt (mood s) @ [CHR 0x27]
                          @ '' should be avoided during this daypart'')]
               else [])
      else [])"

fun hourly_scan :: "datetime \<Rightarrow> song \<Rightarrow> int option \<Rightarrow> rule_set list \<Rightarrow> rule_violation list" where
  "hourly_scan now s hr [] = []"
| "hourly_scan now s hr (rset # rest) =
     (if hour_in hr (get_default (rs_hours rset) [])
      then (let allowed_categories = map cr_category (get_default (rs_rules rset) [])
            in (if truthy_str (category s) \<and> category s \<notin> set allowed_categories
                then [violation now s
                        (''Hourly Rule: '' @ get_default (rs_name rset) ''Unknown'')
                        ''hourly'' Warning
                        (''Category '' @ [CHR 0x27] @ str_opt (category s) @ [CHR 0x27]
                           @ '' not scheduled for hour '' @ str_opt_int hr)]
                else [])
               @ concat (map (restriction_violations now s)
                           (get_default (rs_restrictions rset) [])))
      else hourly_scan now s hr rest)"

definition check_hourly_rules :: "rules_doc \<Rightarrow> datetime \<Rightarrow> song \<Rightarrow> play_context
    \<Rightarrow> rule_violation list" where
  "check_hourly_rules rules now s ctx =
     hourly_scan now s (current_hour ctx now) (get_default (hourly_rules rules) [])"

fun tempo_step :: "nat \<times> nat \<Rightarrow> song \<Rightarrow> nat \<times> nat" where
  \<comment> \<open>one turn of the loop over the last five songs: (consecutive slow, consecutive fast)\<close>
  "tempo_step (consecutive_slow, consecutive_fast) recent =
     (if tempo recent = Some ''Slow'' then (consecutive_slow + 1, 0)
      else if tempo recent = Some ''Fast'' then (0, consecutive_fast + 1)
      else (0, 0))"

definition check_tempo_rules :: "rules_doc \<Rightarrow> datetime \<Rightarrow> song \<Rightarrow> play_context
    \<Rightarrow> rule_violation list" where
  "check_tempo_rules rules now s ctx =
     (let tempo_cfg = get_default (tempo_rules rules)
            \<lparr>max_consecutive_slow = None, max_consecutive_fast = None\<rparr>;
          recent = get_default (recent_songs ctx) []
      in if recent = [] then []
         else
           (let max_slow = get_default (max_consecutive_slow tempo_cfg) 2;
                max_fast = get_default (max_consecutive_fast tempo_cfg) 3;
                (consecutive_slow, consecutive_fast) =
                   foldl tempo_step (0, 0) (slice_from recent (- 5))
            in (if tempo s = Some ''Slow'' \<and> int consecutive_slow \<ge> max_slow
                then [violation now s ''Tempo Flow'' ''tempo'' Warning
                        (''Too many slow songs in a row (''
                           @ str_nat (consecutive_slow + 1) @ '')'')]
                else [])
               @ (if tempo s = Some ''Fast'' \<and> int consecutive_fast \<ge> max_fast
                  then [violation now s ''Tempo Flow'' ''tempo'' Warning
                          (''Too many fast songs in a row (''
                             @ str_nat (consecutive_fast + 1) @ '')'')]
                  else [])))"

definition check_gender_rules :: "rules_doc \<Rightarrow> datetime \<Rightarrow> song \<Rightarrow> play_context
    \<Rightarrow> rule_violation list" where
  "check_gender_rules rules now s ctx =
     (let gender_cfg = get_default (gender_rules rules) \<lparr>max_consecutive_same_gender = None\<rparr>;
          recent = get_default (recent_songs ctx) [];
          max_consecutive = get_default (max_consecutive_same_gender gender_cfg) 3
      in if recent = [] then []
         else
           (let consecutive =
                  length (takeWhile (\<lambda>r. gender r = gender s)
                            (rev (slice_from recent (- max_consecutive))))
            in if int consecutive \<ge> max_consecutive
               then [violation now s ''Gender Balance'' ''gender'' Warning
                       (''Too many consecutive '' @ str_opt (gender s) @ '' artists (''
                          @ str_nat (consecutive + 1) @ '')'')]
               else []))"

fun genre_scan :: "datetime \<Rightarrow> song \<Rightarrow> int \<Rightarrow> (nat \<times> song) list \<Rightarrow> rule_violation list" where
  "genre_scan now s separation [] = []"
| "genre_scan now s separation ((i, recent) # rest) =
     (if genre recent = genre s
      then [violation now s ''Genre Separation'' ''genre'' Warning
              (''Same genre '' @ [CHR 0x27] @ str_opt (genre s) @ [CHR 0x27] @ '' played ''
                 @ str_nat (i + 1) @ '' songs ago (min separation: ''
                 @ str_int separation @ '')'')]
      else genre_scan now s separation rest)"

definition limit_violations :: "datetime \<Rightarrow> song \<Rightarrow> (string option \<rightharpoonup> int) \<Rightarrow> hourly_limit
    \<Rightarrow> rule_violation list" where
  "limit_violations now s hourly_plays limit =
     (if Some (hl_genre limit) = genre s
      then (let max_allowed = get_default (max_per_hour limit) 999;
                current_count = get_default (hourly_plays (genre s)) 0
            in if current_count \<ge> max_allowed
               then [violation now s ''Genre Hourly Limit'' ''genre'' Error
                       (''Max '' @ str_opt (genre s) @ '' songs reached for this hour (''
                          @ str_int max_allowed @ '')'')]
               else [])
      else [])"

definition check_genre_rules :: "rules_doc \<Rightarrow> datetime \<Rightarrow> song \<Rightarrow> play_context
    \<Rightarrow> rule_violation list" where
  "check_genre_rules rules now s ctx =
     (let genre_cfg = get_default (genre_rules rules)
            \<lparr>same_genre_separation = None, hourly_limits = None\<rparr>;
          recent = get_default (recent_songs ctx) [];
          hourly_plays = get_default (hourly_genre_counts ctx) Map.empty;
          separation = get_default (same_genre_separation genre_cfg) 2
      in genre_scan now s separation (List.enumerate 0 (rev (slice_to recent separation)))
         @ concat (map (limit_violations now s hourly_plays)
                     (get_default (hourly_limits genre_cfg) [])))"

definition daypart_violations :: "datetime \<Rightarrow> song \<Rightarrow> int option \<Rightarrow> int \<Rightarrow> daypart_rule
    \<Rightarrow> rule_violation list" where
  "daypart_violations now s hr current_day rule =
     (let hours = get_default (dp_hours rule) [0..23];
          days = get_default (dp_days rule) [0..6]
      in if hour_in hr hours \<and> current_day \<in> set days
         then (case cond_explicit (get_default (dp_condition rule) \<lparr>cond_explicit = None\<rparr>) of
                 None \<Rightarrow> []
               | Some allowed \<Rightarrow>
                   if truthy_bool (explicit s) \<and> \<not> allowed
                   then [violation now s
                           (''Dayparting: '' @ get_default (dp_name rule) ''Unknown'')
                           ''dayparting'' Critical
                           ''Explicit content not allowed during this daypart'']
                   else [])
         else [])"

definition check_dayparting_rules :: "rules_doc \<Rightarrow> datetime \<Rightarrow> song \<Rightarrow> play_context
    \<Rightarrow> rule_violation list" where
  "check_dayparting_rules rules now s ctx =
     (let special = get_default (special_rules rules) \<lparr>dayparting = None\<rparr>;
          current_day = get_default (day_of_week ctx) (weekday_of now)
      in concat (map (daypart_violations now s (current_hour ctx now) current_day)
                   (get_default (dayparting special) [])))"

subsection \<open>The decision\<close>

definition can_play_song :: "rules_doc \<Rightarrow> datetime \<Rightarrow> song \<Rightarrow> play_context option
    \<Rightarrow> bool \<times> rule_violation list" where
  "can_play_song rules now s context =
     (let ctx = get_default context empty_context;
          violations = [];
          violations = violations @ check_song_separation rules now s ctx;
          violations = violations @ check_artist_separation rules now s ctx;
          violations = violations @ check_hourly_rules rules now s ctx;
          violations = violations @ check_tempo_rules rules now s ctx;
          violations = violations @ check_gender_rules rules now s ctx;
          violations = violations @ check_genre_rules rules now s ctx;
          violations = violations @ check_dayparting_rules rules now s ctx;
          can_play = \<not> list_ex (\<lambda>v. severity v = Critical) violations
      in (can_play, violations))"


subsection \<open>The audit report and the database\<close>

text \<open>
  The numbers the auditor computes with floats (percentages, hours, averages) are rationals
  here: float arithmetic is read as exact arithmetic and \<^verbatim>\<open>round(x, 1)\<close> as rounding to
  the nearest tenth, ties to even. The text of a recommendation is a template filled with such
  numbers; the template and its arguments are kept, one constructor per template.
\<close>

datatype py_error = KeyError | ZeroDivisionError

definition round1 :: "rat \<Rightarrow> rat" where
  "round1 x =
     (let y = x * 10; f = \<lfloor>y\<rfloor>; d = y - rat_of_int f
      in rat_of_int (if d < 1 / 2 then f else if 1 / 2 < d then f + 1
                     else if even f then f else f + 1) / 10)"

record summary =
  total_plays :: nat
  unique_songs_played :: nat
  unique_artists_played :: nat
  total_songs_in_library :: nat
  library_coverage_percent :: rat
  total_air_time_hours :: rat
  average_plays_per_song :: rat
  average_plays_per_day :: rat
  completed_plays :: nat
  skipped_plays :: nat

record category_entry =
  ce_plays :: nat
  ce_percentage :: rat
  ce_unique_songs :: nat

record gender_entry =
  ge_plays :: nat
  ge_percentage :: rat

record underplayed_entry =
  up_title :: string
  up_artist :: string
  up_category :: "string option"
  actual_plays :: nat
  expected_plays :: nat
  up_song_id :: int

record violation_entry =
  ve_timestamp :: datetime
  ve_song :: string
  ve_artist :: string
  ve_rule_name :: string
  ve_rule_type :: string
  ve_severity :: severity
  ve_message :: string

datatype recommendation =
    LowCoverage rat
  | Underplayed nat
  | CurrentLow rat
  | CurrentHigh rat
  | GenderShare string rat
  | ManyViolations nat
  | SkippedPlays rat

record report =
  start_date :: datetime
  end_date :: datetime
  generated_at :: datetime
  summary :: "summary option"
  category_breakdown :: "(string \<times> category_entry) list"
  gender_breakdown :: "(string \<times> gender_entry) list"
  underplayed_songs :: "underplayed_entry list"
  rule_violations :: "violation_entry list"
  recommendations :: "recommendation list"

record audit_row =
  ar_start_date :: datetime
  ar_end_date :: datetime
  ar_generated_at :: datetime
  ar_summary :: "summary option"
  ar_category_breakdown :: "(string \<times> category_entry) list"
  ar_gender_breakdown :: "(string \<times> gender_entry) list"
  ar_violations :: "violation_entry list"
  ar_recommendations :: "recommendation list"

record database =
  db_songs :: "song list"
  db_play_logs :: "play_log list"
  db_audit_reports :: "audit_row list"

record rules_engine =
  eng_rules :: rules_doc
  eng_db :: "database option"

record auditor =
  aud_db :: "database option"
  aud_rules_engine :: "rules_engine option"

subsection \<open>Eligible songs and the selection\<close>

definition get_eligible_songs :: "database \<Rightarrow> datetime \<Rightarrow> string option \<Rightarrow> int
    \<Rightarrow> string list option \<Rightarrow> int list option \<Rightarrow> song list" where
  "get_eligible_songs d now cat min_rest excluded_artists excluded_song_ids =
     (let cutoff = now - min_rest * 60000000;
          query = filter (\<lambda>s. is_active s = Some True
                    \<and> (case last_played s of None \<Rightarrow> True | Some lp \<Rightarrow> lp < cutoff))
                    (db_songs d);
          query = (if truthy_str cat then filter (\<lambda>s. category s = cat) query else query);
          query = (case excluded_artists of
                     None \<Rightarrow> query
                   | Some names \<Rightarrow>
                       if names = [] then query
                       else filter (\<lambda>s. artist s \<notin> set names) query);
          query = (case excluded_song_ids of
                     None \<Rightarrow> query
                   | Some ids \<Rightarrow>
                       if ids = [] then query
                       else filter (\<lambda>s. song_id s \<notin> set ids) query)
      in query)"

definition default_percentages :: "(string \<times> int) list" where
  "default_percentages =
     [(''Current'', 30), (''Recurrent'', 25), (''Power Gold'', 25), (''Gold'', 15),
      (''Deep Cut'', 5)]"

fun percentages_of :: "category_rule list \<Rightarrow> (string \<times> int) list
    \<Rightarrow> py_error + (string \<times> int) list" where
  \<comment> \<open>\<^verbatim>\<open>percentages[rule['category']] = rule.get('percentage', 0)\<close>: a rule with no
      category raises; a dict keeps a key where it was first inserted\<close>
  "percentages_of [] percentages = Inr percentages"
| "percentages_of (rule # rest) percentages =
     (case cr_category rule of
        None \<Rightarrow> Inl KeyError
      | Some c \<Rightarrow>
          percentages_of rest (AList.update c (get_default (cr_percentage rule) 0) percentages))"

fun get_category_scan :: "int option \<Rightarrow> rule_set list \<Rightarrow> py_error + (string \<times> int) list" where
  "get_category_scan hr [] = Inr default_percentages"
| "get_category_scan hr (rset # rest) =
     (if hour_in hr (get_default (rs_hours rset) [])
      then percentages_of (get_default (rs_rules rset) []) []
      else get_category_scan hr rest)"

definition get_category_for_hour :: "rules_doc \<Rightarrow> int option \<Rightarrow> py_error + (string \<times> int) list" where
  "get_category_for_hour rules hr = get_category_scan hr (get_default (hourly_rules rules) [])"

definition weighted_categories :: "(string \<times> int) list \<Rightarrow> string list" where
  \<comment> \<open>\<^verbatim>\<open>weighted_categories.extend([cat] * int(weight))\<close> for every item of the dict\<close>
  "weighted_categories category_weights =
     concat (map (\<lambda>(cat, weight). replicate (nat weight) cat) category_weights)"

fun first_playable :: "rules_doc \<Rightarrow> datetime \<Rightarrow> play_context \<Rightarrow> song list \<Rightarrow> song option" where
  "first_playable rules now ctx [] = None"
| "first_playable rules now ctx (s # rest) =
     (if fst (can_play_song rules now s (Some ctx)) then Some s
      else first_playable rules now ctx rest)"

fun try_categories :: "rules_doc \<Rightarrow> database \<Rightarrow> datetime \<Rightarrow> play_context \<Rightarrow> string list
    \<Rightarrow> string list \<Rightarrow> song option" where
  "try_categories rules d now ctx recent_artists [] = None"
| "try_categories rules d now ctx recent_artists (cat # rest) =
     (let songs = get_eligible_songs d now (Some cat) 180 (Some (take 5 recent_artists)) None
      in case first_playable rules now ctx songs of
           Some s \<Rightarrow> Some s
         | None \<Rightarrow> try_categories rules d now ctx recent_artists rest)"

definition select_next_song :: "rules_engine \<Rightarrow> datetime \<Rightarrow> (string list \<Rightarrow> string list)
    \<Rightarrow> play_context \<Rightarrow> py_error + song option" where
  \<comment> \<open>\<open>shuffle\<close> is what \<^verbatim>\<open>random.shuffle\<close> does to the weighted list in this call;
      \<open>Inr None\<close> is the \<^verbatim>\<open>None\<close> the method returns when nothing can play\<close>
  "select_next_song eng now shuffle ctx =
     (case eng_db eng of
        None \<Rightarrow> Inr None
      | Some d \<Rightarrow>
          (case get_category_for_hour (eng_rules eng) (current_hour ctx now) of
             Inl e \<Rightarrow> Inl e
           | Inr category_weights \<Rightarrow>
               (let recent_artists =
                      map artist (List.map_filter pl_song (get_default (recent_plays ctx) []))
                in Inr (try_categories (eng_rules eng) d now ctx recent_artists
                          (shuffle (weighted_categories category_weights))))))"

subsection \<open>Validation of the rules document\<close>

fun join :: "string \<Rightarrow> string list \<Rightarrow> string" where
  "join sep [] = []"
| "join sep [x] = x"
| "join sep (x # y # rest) = x @ sep @ join sep (y # rest)"

definition str_int_list :: "int list \<Rightarrow> string" where
  \<comment> \<open>how an f-string renders a list of ints\<close>
  "str_int_list xs = ''['' @ join '', '' (map str_int xs) @ '']''"

definition percentage_total :: "rule_set \<Rightarrow> int" where
  \<comment> \<open>\<^verbatim>\<open>sum(r.get('percentage', 0) for r in rule_set.get('rules', []))\<close>\<close>
  "percentage_total rset =
     sum_list (map (\<lambda>r. get_default (cr_percentage r) 0) (get_default (rs_rules rset) []))"

definition percentage_issue :: "rule_set \<Rightarrow> string list" where
  "percentage_issue rset =
     (let total = percentage_total rset
      in if total \<noteq> 100
         then [''Percentages for '' @ [CHR 0x27] @ str_opt (rs_name rset) @ [CHR 0x27]
                 @ '' sum to '' @ str_int total @ '', not 100'']
         else [])"

definition covered_hours :: "rule_set list \<Rightarrow> int set" where
  "covered_hours sets = (\<Union>rset \<in> set sets. set (get_default (rs_hours rset) []))"

definition rules_loaded :: "rules_doc \<Rightarrow> bool" where
  \<comment> \<open>the truth value of the dict \<^verbatim>\<open>self.rules\<close>: it has a key\<close>
  "rules_loaded rules =
     (settings rules \<noteq> None \<or> hourly_rules rules \<noteq> None \<or> tempo_rules rules \<noteq> None
      \<or> gender_rules rules \<noteq> None \<or> genre_rules rules \<noteq> None \<or> special_rules rules \<noteq> None
      \<or> other_sections rules \<noteq> [])"

definition validate_rules :: "rules_doc \<Rightarrow> string list" where
  "validate_rules rules =
     (if \<not> rules_loaded rules then [''No rules loaded'']
      else
        (if settings rules = None then [''Missing '' @ [CHR 0x27] @ ''settings'' @ [CHR 0x27] @ '' section''] else [])
        @ (case hourly_rules rules of
             None \<Rightarrow> [''Missing '' @ [CHR 0x27] @ ''hourly_rules'' @ [CHR 0x27] @ '' section'']
           | Some sets \<Rightarrow>
               (let missing = filter (\<lambda>h. h \<notin> covered_hours sets) [0..23]
                in if missing \<noteq> []
                   then [''Hours not covered by rules: '' @ str_int_list missing]
                   else [])
               @ concat (map percentage_issue sets)))"


subsection \<open>The auditor\<close>

fun summary_step :: "int set \<times> string set \<times> rat \<Rightarrow> play_log \<Rightarrow> int set \<times> string set \<times> rat" where
  \<comment> \<open>one turn of the loop of \<^verbatim>\<open>_calculate_summary\<close>\<close>
  "summary_step (unique_songs, unique_artists, total_duration) play =
     (case pl_song play of
        None \<Rightarrow> (unique_songs, unique_artists, total_duration)
      | Some s \<Rightarrow>
          (insert (pl_song_id play) unique_songs, insert (artist s) unique_artists,
           total_duration + get_default (duration_seconds s) 0))"

definition count_where :: "('a \<Rightarrow> bool) \<Rightarrow> 'a list \<Rightarrow> nat" where
  \<comment> \<open>\<^verbatim>\<open>sum(1 for p in plays if cond(p))\<close>\<close>
  "count_where cond xs = length (filter cond xs)"

definition calculate_summary :: "play_log list \<Rightarrow> song list \<Rightarrow> summary" where
  "calculate_summary plays all_songs =
     (let (unique_songs, unique_artists, total_duration) = foldl summary_step ({}, {}, 0) plays
      in \<lparr>total_plays = length plays,
          unique_songs_played = card unique_songs,
          unique_artists_played = card unique_artists,
          total_songs_in_library = length all_songs,
          library_coverage_percent =
            (if all_songs \<noteq> []
             then round1 (rat_of_nat (card unique_songs) / rat_of_nat (length all_songs) * 100)
             else 0),
          total_air_time_hours = round1 (total_duration / 3600),
          average_plays_per_song =
            (if unique_songs \<noteq> {}
             then round1 (rat_of_nat (length plays) / rat_of_nat (card unique_songs))
             else 0),
          average_plays_per_day = round1 (rat_of_nat (length plays) / 7),
          completed_plays = count_where (\<lambda>p. truthy_bool (completed p)) plays,
          skipped_plays = count_where (\<lambda>p. truthy_bool (skipped p)) plays\<rparr>)"

definition len_or_1 :: "'a list \<Rightarrow> nat" where
  \<comment> \<open>\<^verbatim>\<open>len(plays) or 1\<close>\<close>
  "len_or_1 xs = (if length xs = 0 then 1 else length xs)"

fun category_step :: "(string \<times> nat) list \<times> (string \<times> int set) list \<Rightarrow> play_log
    \<Rightarrow> (string \<times> nat) list \<times> (string \<times> int set) list" where
  "category_step (category_counts, category_songs) play =
     (case pl_song play of
        None \<Rightarrow> (category_counts, category_songs)
      | Some s \<Rightarrow>
          (case category s of
             None \<Rightarrow> (category_counts, category_songs)
           | Some c \<Rightarrow>
               if c = [] then (category_counts, category_songs)
               else (AList.update c (get_default (map_of category_counts c) 0 + 1) category_counts,
                     AList.update c (insert (pl_song_id play)
                                       (get_default (map_of category_songs c) {}))
                       category_songs)))"

definition analyze_categories :: "play_log list \<Rightarrow> (string \<times> category_entry) list" where
  "analyze_categories plays =
     (let (category_counts, category_songs) = foldl category_step ([], []) plays;
          total = len_or_1 plays
      in map (\<lambda>(c, n). (c, \<lparr>ce_plays = n,
                              ce_percentage = round1 (rat_of_nat n / rat_of_nat total * 100),
                              ce_unique_songs = card (get_default (map_of category_songs c) {})\<rparr>))
           category_counts)"

definition or_unknown :: "string option \<Rightarrow> string" where
  \<comment> \<open>\<^verbatim>\<open>value or 'Unknown'\<close>\<close>
  "or_unknown v = (if truthy_str v then get_default v [] else ''Unknown'')"

fun gender_step :: "(string \<times> nat) list \<Rightarrow> play_log \<Rightarrow> (string \<times> nat) list" where
  "gender_step gender_counts play =
     (case pl_song play of
        None \<Rightarrow> gender_counts
      | Some s \<Rightarrow>
          (let g = or_unknown (gender s)
           in AList.update g (get_default (map_of gender_counts g) 0 + 1) gender_counts))"

definition analyze_gender :: "play_log list \<Rightarrow> (string \<times> gender_entry) list" where
  "analyze_gender plays =
     (let gender_counts = foldl gender_step [] plays;
          total = len_or_1 plays
      in map (\<lambda>(g, n). (g, \<lparr>ge_plays = n,
                              ge_percentage = round1 (rat_of_nat n / rat_of_nat total * 100)\<rparr>))
           gender_counts)"

definition underplayed_of :: "play_log list \<Rightarrow> song \<Rightarrow> underplayed_entry list" where
  "underplayed_of plays s =
     (if category s = Some ''Current'' \<or> category s = Some ''Power Gold''
      then (let play_count = count_where (\<lambda>p. pl_song_id p = song_id s) plays;
                expected = (if category s = Some ''Current'' then 7 else 3)
            in if play_count < expected
               then [\<lparr>up_title = title s, up_artist = artist s, up_category = category s,
                       actual_plays = play_count, expected_plays = expected,
                       up_song_id = song_id s\<rparr>]
               else [])
      else [])"

definition find_underplayed :: "play_log list \<Rightarrow> song list \<Rightarrow> underplayed_entry list" where
  "find_underplayed plays all_songs =
     take 20 (sort_key actual_plays (concat (map (underplayed_of plays) all_songs)))"

definition violation_entry_of :: "play_log \<Rightarrow> song \<Rightarrow> rule_violation \<Rightarrow> violation_entry" where
  "violation_entry_of play s v =
     \<lparr>ve_timestamp = played_at play, ve_song = title s, ve_artist = artist s,
      ve_rule_name = rule_name v, ve_rule_type = rule_type v, ve_severity = severity v,
      ve_message = message v\<rparr>"

definition replay_context :: "play_log list \<Rightarrow> nat \<Rightarrow> play_log \<Rightarrow> play_context" where
  \<comment> \<open>the context \<^verbatim>\<open>_find_violations\<close> builds for the play at index \<open>i\<close>\<close>
  "replay_context sorted_plays i play =
     (let prev_plays = drop (i - 10) (take i sorted_plays)
      in \<lparr>recent_plays = Some prev_plays,
          recent_songs = Some (List.map_filter pl_song prev_plays),
          ctx_hour = Some (pl_hour play),
          day_of_week = None,
          hourly_genre_counts = None\<rparr>)"

fun violations_loop :: "rules_doc \<Rightarrow> datetime \<Rightarrow> play_log list \<Rightarrow> (nat \<times> play_log) list
    \<Rightarrow> violation_entry list \<Rightarrow> violation_entry list" where
  "violations_loop rules now sorted_plays [] violations = violations"
| "violations_loop rules now sorted_plays ((i, play) # rest) violations =
     (case pl_song play of
        None \<Rightarrow> violations_loop rules now sorted_plays rest violations
      | Some s \<Rightarrow>
          (let context = replay_context sorted_plays i play;
               play_violations = snd (can_play_song rules now s (Some context))
           in violations_loop rules now sorted_plays rest
                (violations
                 @ map (violation_entry_of play s)
                     (filter (\<lambda>v. severity v = Error \<or> severity v = Critical)
                        play_violations))))"

definition find_violations :: "rules_engine option \<Rightarrow> datetime \<Rightarrow> play_log list
    \<Rightarrow> violation_entry list" where
  "find_violations engine now plays =
     (case engine of
        None \<Rightarrow> []
      | Some eng \<Rightarrow>
          (let sorted_plays = sort_key played_at plays
           in take 100 (violations_loop (eng_rules eng) now sorted_plays
                          (List.enumerate 1 (drop 1 sorted_plays)) [])))"

definition generate_recommendations :: "report \<Rightarrow> py_error + recommendation list" where
  \<comment> \<open>the keys of the summary are read with defaults: an empty summary is \<open>None\<close>; the
      product with the float 0.05 is read as a twentieth\<close>
  "generate_recommendations rep =
     (let coverage = (case summary rep of None \<Rightarrow> 0 | Some sm \<Rightarrow> library_coverage_percent sm);
          recs = [];
          recs = recs @ (if coverage < 50 then [LowCoverage coverage] else []);
          recs = recs @ (if length (underplayed_songs rep) > 10
                         then [Underplayed (length (underplayed_songs rep))] else []);
          categories = category_breakdown rep;
          recs = recs @ (case map_of categories ''Current'' of
                           None \<Rightarrow> []
                         | Some entry \<Rightarrow>
                             (let current_pct = ce_percentage entry
                              in if current_pct < 25 then [CurrentLow current_pct]
                                 else if current_pct > 50 then [CurrentHigh current_pct]
                                 else []));
          recs = recs @ concat (map (\<lambda>(g, entry). if ge_percentage entry > 60
                                                    then [GenderShare g (ge_percentage entry)]
                                                    else [])
                                  (gender_breakdown rep));
          recs = recs @ (if length (rule_violations rep) > 20
                         then [ManyViolations (length (rule_violations rep))] else []);
          n_skipped = (case summary rep of None \<Rightarrow> 0 | Some sm \<Rightarrow> skipped_plays sm);
          n_total = (case summary rep of None \<Rightarrow> 1 | Some sm \<Rightarrow> total_plays sm)
      in if rat_of_nat n_skipped > rat_of_nat n_total * (5 / 100)
         then (if n_total = 0 then Inl ZeroDivisionError
               else Inr (recs @ [SkippedPlays (rat_of_nat n_skipped / rat_of_nat n_total * 100)]))
         else Inr recs)"

definition week :: int where
  \<comment> \<open>\<^verbatim>\<open>timedelta(days=7)\<close> in microseconds\<close>
  "week = 604800000000"

definition save_report :: "datetime \<Rightarrow> report \<Rightarrow> database \<Rightarrow> database" where
  \<comment> \<open>\<^verbatim>\<open>_save_report\<close>: one more row in the table of audit reports\<close>
  "save_report now rep d =
     d\<lparr>db_audit_reports := db_audit_reports d @
         [\<lparr>ar_start_date = start_date rep, ar_end_date = end_date rep, ar_generated_at = now,
           ar_summary = summary rep, ar_category_breakdown = category_breakdown rep,
           ar_gender_breakdown = gender_breakdown rep, ar_violations = rule_violations rep,
           ar_recommendations = recommendations rep\<rparr>]\<rparr>"

definition generate_weekly_report :: "auditor \<Rightarrow> datetime \<Rightarrow> datetime option
    \<Rightarrow> py_error + report \<times> auditor" where
  \<comment> \<open>the sections of the report that the recommendations read; the run returns the report
      and the auditor whose database holds the saved report\<close>
  "generate_weekly_report aud now end_arg =
     (let end_d = get_default end_arg now;
          start_d = end_d - week;
          rep = \<lparr>start_date = start_d, end_date = end_d, generated_at = now, summary = None,
                 category_breakdown = [], gender_breakdown = [], underplayed_songs = [],
                 rule_violations = [], recommendations = []\<rparr>
      in case aud_db aud of
           None \<Rightarrow> Inr (rep, aud)
         | Some d \<Rightarrow>
             (let plays = filter (\<lambda>p. start_d \<le> played_at p \<and> played_at p \<le> end_d)
                            (db_play_logs d);
                  all_songs = filter (\<lambda>s. is_active s = Some True) (db_songs d);
                  rep = rep\<lparr>summary := Some (calculate_summary plays all_songs)\<rparr>;
                  rep = rep\<lparr>category_breakdown := analyze_categories plays\<rparr>;
                  rep = rep\<lparr>gender_breakdown := analyze_gender plays\<rparr>;
                  rep = rep\<lparr>underplayed_songs := find_underplayed plays all_songs\<rparr>;
                  rep = rep\<lparr>rule_violations := find_violations (aud_rules_engine aud) now plays\<rparr>
              in case generate_recommendations rep of
                   Inl e \<Rightarrow> Inl e
                 | Inr recs \<Rightarrow>
                     (let rep = rep\<lparr>recommendations := recs\<rparr>
                      in Inr (rep, aud\<lparr>aud_db := Some (save_report now rep d)\<rparr>))))"


subsection \<open>What the replay appends for one play\<close>

definition play_entries :: "rules_doc \<Rightarrow> datetime \<Rightarrow> play_log list \<Rightarrow> nat \<Rightarrow> violation_entry list" where
  \<comment> \<open>the entries of the play at index \<open>i\<close> of the sorted plays: the violations of
      severity error or critical that the checker finds for its song in the context of the
      plays before it; a play with no song has none\<close>
  "play_entries rules now sorted_plays i =
     (case pl_song (sorted_plays ! i) of
        None \<Rightarrow> []
      | Some s \<Rightarrow>
          map (violation_entry_of (sorted_plays ! i) s)
            (filter (\<lambda>v. severity v = Error \<or> severity v = Critical)
               (snd (can_play_song rules now s
                       (Some (replay_context sorted_plays i (sorted_plays ! i)))))))"

subsection \<open>Readings of the specification that are compared with the code\<close>

definition spec_min_rest_minutes :: "rules_doc \<Rightarrow> song \<Rightarrow> int" where
  \<comment> \<open>the specification's minimum rest: the song's own override, else the global setting\<close>
  "spec_min_rest_minutes rules s =
     (case min_rest_minutes s of Some m \<Rightarrow> m | None \<Rightarrow> song_separation_minutes rules)"

definition spec_current_share :: "report \<Rightarrow> rat" where
  \<comment> \<open>the share of the category Current in a report: the percentage of its entry, and
      nothing when no play of the week was of that category\<close>
  "spec_current_share rep =
     (case map_of (category_breakdown rep) ''Current'' of
        None \<Rightarrow> 0
      | Some entry \<Rightarrow> ce_percentage entry)"

definition spec_breaches :: "summary \<Rightarrow> report \<Rightarrow> nat" where
  \<comment> \<open>the number of thresholds of the specification that a report breaches\<close>
  "spec_breaches sm rep =
     (if library_coverage_percent sm < 50 then 1 else 0)
   + (if length (underplayed_songs rep) > 10 then 1 else 0)
   + (if spec_current_share rep < 25 \<or> spec_current_share rep > 50 then 1 else 0)
   + length (filter (\<lambda>(g, entry). ge_percentage entry > 60) (gender_breakdown rep))
   + (if length (rule_violations rep) > 20 then 1 else 0)
   + (if rat_of_nat (skipped_plays sm) > rat_of_nat (total_plays sm) * (5 / 100) then 1 else 0)"

subsection \<open>Concrete inputs\<close>

definition song_blue :: song where
  "song_blue = \<lparr>song_id = 1, title = ''Blue'', artist = ''Ann'', genre = Some ''Rock'',
     category = Some ''Gold'', mood = Some ''Sad'', tempo = Some ''Slow'',
     gender = Some ''Female'', duration_seconds = Some 200, min_rest_minutes = None,
     explicit = Some False, is_active = Some True, last_played = Some 0\<rparr>"

definition rules_180 :: rules_doc where
  "rules_180 = empty_rules\<lparr>
     settings := Some \<lparr>song_separation = Some 180, artist_separation = Some 60\<rparr>,
     hourly_rules := Some [\<lparr>rs_name = Some ''All Day'', rs_hours = Some [0..23],
        rs_rules = Some [\<lparr>cr_category = Some ''Current'', cr_percentage = Some 100\<rparr>],
        rs_restrictions = Some [\<lparr>action = Some ''avoid'', avoid_mood = Some [''Sad''],
                                 reason = Some ''Drive time''\<rparr>]\<rparr>]\<rparr>"

definition song_long_rest :: song where
  "song_long_rest = song_blue\<lparr>min_rest_minutes := Some 300\<rparr>"

definition song_new :: song where
  "song_new = song_blue\<lparr>last_played := None\<rparr>"

definition song_pop :: song where
  "song_pop = song_blue\<lparr>song_id := 2, title := ''Pop Tune'', artist := ''Bob'',
     genre := Some ''Pop'', last_played := None\<rparr>"

definition song_rock :: song where
  "song_rock = song_blue\<lparr>song_id := 3, title := ''Rock Tune'', artist := ''Cy'',
     genre := Some ''Rock'', last_played := None\<rparr>"

definition ctx_pop_pop_rock :: play_context where
  \<comment> \<open>three songs, oldest first as the auditor lists them: the last one played is Rock\<close>
  "ctx_pop_pop_rock = empty_context\<lparr>recent_songs := Some [song_pop, song_pop, song_rock]\<rparr>"

definition ctx_rock_pop_pop :: play_context where
  "ctx_rock_pop_pop = empty_context\<lparr>recent_songs := Some [song_rock, song_pop, song_pop]\<rparr>"

definition song_explicit :: song where
  "song_explicit = song_blue\<lparr>song_id := 4, title := ''Loud'', artist := ''Dee'',
     explicit := Some True, mood := None, last_played := None\<rparr>"

definition rules_daypart :: rules_doc where
  "rules_daypart = empty_rules\<lparr>special_rules := Some \<lparr>dayparting = Some
      [\<lparr>dp_name = Some ''Daytime'', dp_hours = Some [6..18], dp_days = None,
        dp_condition = Some \<lparr>cond_explicit = Some False\<rparr>\<rparr>]\<rparr>\<rparr>"

definition engine_daypart :: rules_engine where
  "engine_daypart = \<lparr>eng_rules = rules_daypart, eng_db = None\<rparr>"

definition play_clean :: play_log where
  "play_clean = \<lparr>pl_song_id = 2, played_at = 1000, pl_hour = Some 8, completed = Some True,
     skipped = Some False, pl_song = Some song_pop\<rparr>"

definition play_explicit :: play_log where
  "play_explicit = \<lparr>pl_song_id = 4, played_at = 2000, pl_hour = Some 8, completed = Some True,
     skipped = Some False, pl_song = Some song_explicit\<rparr>"

definition set_day :: rule_set where
  "set_day = \<lparr>rs_name = Some ''Day'', rs_hours = Some [0..11],
     rs_rules = Some [\<lparr>cr_category = Some ''Current'', cr_percentage = Some 60\<rparr>,
                      \<lparr>cr_category = Some ''Gold'', cr_percentage = Some 40\<rparr>],
     rs_restrictions = None\<rparr>"

definition set_night :: rule_set where
  "set_night = \<lparr>rs_name = Some ''Night'', rs_hours = Some [12..23],
     rs_rules = Some [\<lparr>cr_category = Some ''Current'', cr_percentage = Some 100\<rparr>],
     rs_restrictions = None\<rparr>"

definition rules_day_night :: rules_doc where
  "rules_day_night = empty_rules\<lparr>
     settings := Some \<lparr>song_separation = Some 180, artist_separation = Some 60\<rparr>,
     hourly_rules := Some [set_day, set_night]\<rparr>"

definition rules_no_settings :: rules_doc where
  "rules_no_settings = empty_rules\<lparr>hourly_rules := Some [set_day, set_night]\<rparr>"

definition db_three_plays :: database where
  "db_three_plays =
     \<lparr>db_songs = [song_pop, song_explicit, song_new\<lparr>is_active := Some False\<rparr>],
      db_play_logs = [play_explicit, play_clean,
                      play_clean\<lparr>played_at := 3000, skipped := Some True\<rparr>],
      db_audit_reports = []\<rparr>"

definition auditor_three :: auditor where
  "auditor_three = \<lparr>aud_db = Some db_three_plays, aud_rules_engine = Some engine_daypart\<rparr>"

definition report_gold_only :: report where
  \<comment> \<open>a week of a hundred plays, none of the category Current\<close>
  "report_gold_only =
     \<lparr>start_date = 0, end_date = 604800000000, generated_at = 604800000000,
      summary = Some \<lparr>total_plays = 100, unique_songs_played = 80, unique_artists_played = 40,
         total_songs_in_library = 100, library_coverage_percent = 80, total_air_time_hours = 6,
         average_plays_per_song = 5 / 4, average_plays_per_day = 143 / 10,
         completed_plays = 100, skipped_plays = 0\<rparr>,
      category_breakdown =
        [(''Gold'', \<lparr>ce_plays = 100, ce_percentage = 100, ce_unique_songs = 80\<rparr>)],
      gender_breakdown = [(''Female'', \<lparr>ge_plays = 50, ge_percentage = 50\<rparr>),
                          (''Male'', \<lparr>ge_plays = 50, ge_percentage = 50\<rparr>)],
      underplayed_songs = [], rule_violations = [], recommendations = []\<rparr>"

definition summary_unbalanced :: summary where
  "summary_unbalanced =
     \<lparr>total_plays = 100, unique_songs_played = 40, unique_artists_played = 20,
      total_songs_in_library = 100, library_coverage_percent = 40, total_air_time_hours = 6,
      average_plays_per_song = 5 / 2, average_plays_per_day = 143 / 10,
      completed_plays = 90, skipped_plays = 10\<rparr>"

definition report_unbalanced :: report where
  "report_unbalanced =
     \<lparr>start_date = 0, end_date = 604800000000, generated_at = 604800000000,
      summary = Some summary_unbalanced,
      category_breakdown =
        [(''Current'', \<lparr>ce_plays = 20, ce_percentage = 20, ce_unique_songs = 10\<rparr>),
         (''Gold'', \<lparr>ce_plays = 80, ce_percentage = 80, ce_unique_songs = 30\<rparr>)],
      gender_breakdown = [(''Male'', \<lparr>ge_plays = 70, ge_percentage = 70\<rparr>),
                          (''Female'', \<lparr>ge_plays = 30, ge_percentage = 30\<rparr>)],
      underplayed_songs = [], rule_violations = [], recommendations = []\<rparr>"

definition song_current :: song where
  "song_current = song_blue\<lparr>song_id := 5, title := ''Fresh'', artist := ''Eve'',
     category := Some ''Current'', mood := Some ''Happy'', last_played := None\<rparr>"

definition song_retired :: song where
  "song_retired = song_current\<lparr>song_id := 6, title := ''Stale'', is_active := Some False\<rparr>"

definition engine_select :: rules_engine where
  "engine_select = \<lparr>eng_rules = rules_180,
     eng_db = Some \<lparr>db_songs = [song_retired, song_current], db_play_logs = [],
                     db_audit_reports = []\<rparr>\<rparr>"





definition ctx_morning :: play_context where
  "ctx_morning = empty_context\<lparr>ctx_hour := Some (Some 8)\<rparr>"

definition rules_rock_cap :: rules_doc where
  "rules_rock_cap = empty_rules\<lparr>genre_rules := Some \<lparr>same_genre_separation = Some 2,
      hourly_limits = Some [\<lparr>hl_genre = ''Rock'', max_per_hour = Some 4\<rparr>]\<rparr>\<rparr>"

definition rock_limit :: hourly_limit where
  "rock_limit = \<lparr>hl_genre = ''Rock'', max_per_hour = Some 4\<rparr>"

definition ctx_four_rock :: play_context where
  \<comment> \<open>four Rock songs were played in this hour\<close>
  "ctx_four_rock = empty_context\<lparr>hourly_genre_counts := Some [Some ''Rock'' \<mapsto> 4]\<rparr>"

definition daytime_rule :: daypart_rule where
  "daytime_rule = \<lparr>dp_name = Some ''Daytime'', dp_hours = Some [6..18], dp_days = None,
     dp_condition = Some \<lparr>cond_explicit = Some False\<rparr>\<rparr>"

definition song_power :: song where
  "song_power = song_blue\<lparr>song_id := 7, title := ''Anthem'', artist := ''Flo'',
     category := Some ''Power Gold'', last_played := None\<rparr>"

definition plays_of_power :: "play_log list" where
  \<comment> \<open>a week in which one Power Gold song played three times and a Current song never\<close>
  "plays_of_power =
     map (\<lambda>t. \<lparr>pl_song_id = 7, played_at = t, pl_hour = Some 8, completed = Some True,
                skipped = Some False, pl_song = Some song_power\<rparr>) [1000, 2000, 3000]"

section \<open>Properties\<close>

subsection \<open>The decision over all seven checks\<close>

text \<open>
  Claim C1. For every candidate song and context, \<open>can_play_song\<close> returns the violations
  of the seven checks (song separation, artist separation, hourly, tempo, gender, genre,
  dayparting), all of them and in this order, whatever their severity, and the song may play
  exactly when none of the returned violations is critical.
\<close>

theorem can_play_song_all_checks:
  "snd (can_play_song rules now s context) =
       check_song_separation rules now s (get_default context empty_context)
     @ check_artist_separation rules now s (get_default context empty_context)
     @ check_hourly_rules rules now s (get_default context empty_context)
     @ check_tempo_rules rules now s (get_default context empty_context)
     @ check_gender_rules rules now s (get_default context empty_context)
     @ check_genre_rules rules now s (get_default context empty_context)
     @ check_dayparting_rules rules now s (get_default context empty_context)
   \<and> fst (can_play_song rules now s context) =
       (\<forall>v \<in> set (snd (can_play_song rules now s context)). severity v \<noteq> Critical)"
  by (auto simp: can_play_song_def Let_def list_ex_iff)

theorem can_play_song_all_checks_witness:
  "map severity (snd (can_play_song rules_180 600000000 song_blue None))
     = [Critical, Warning, Error]
   \<and> fst (can_play_song rules_180 600000000 song_blue None) = False
   \<and> map severity (snd (can_play_song rules_180 600000000 song_new None))
     = [Warning, Error]
   \<and> fst (can_play_song rules_180 600000000 song_new None) = True"
proof -
  let ?r = "can_play_song rules_180 600000000 song_blue None"
  let ?q = "can_play_song rules_180 600000000 song_new None"
  have sev: "(\<forall>v \<in> set vs. severity v \<noteq> Critical) = (Critical \<notin> set (map severity vs))"
    for vs :: "rule_violation list"
    by (simp add: image_iff) metis
  have e: "map severity (snd ?r) = [Critical, Warning, Error]"
    by code_simp
  have f: "map severity (snd ?q) = [Warning, Error]"
    by code_simp
  have "fst ?r = (\<forall>v \<in> set (snd ?r). severity v \<noteq> Critical)"
    using can_play_song_all_checks [of rules_180 600000000 song_blue None] by (rule conjunct2)
  then have 1: "fst ?r = False"
    unfolding sev e by simp
  have "fst ?q = (\<forall>v \<in> set (snd ?q). severity v \<noteq> Critical)"
    using can_play_song_all_checks [of rules_180 600000000 song_new None] by (rule conjunct2)
  then have 2: "fst ?q = True"
    unfolding sev f by simp
  from e f 1 2 show ?thesis by simp
qed

subsection \<open>Song separation\<close>

text \<open>
  The minimum the check compares with is the global setting: a song whose own
  \<open>min_rest_minutes\<close> is 300 and that played 200 minutes ago is inside the rest the
  specification gives it, and the check lets it pass under the default of 180.
\<close>

theorem song_separation_override_counterexample:
  "last_played song_long_rest = Some 0
   \<and> minutes_between 12000000000 0
       < rat_of_int (spec_min_rest_minutes empty_rules song_long_rest)
   \<and> check_song_separation empty_rules 12000000000 song_long_rest empty_context = []
   \<and> fst (can_play_song empty_rules 12000000000 song_long_rest None)"
  by code_simp

text \<open>
  Claim C2, amended. For every song whose \<open>last_played\<close> is not null and lies less than the
  global \<open>song_separation\<close> setting (180 by default; the song's own \<open>min_rest_minutes\<close>
  is not read) minutes before the evaluation time, the song-separation check emits exactly
  one violation, of severity critical, whose message holds the elapsed minutes as an integer
  and the configured minimum, and the song may not play.
\<close>

theorem song_separation_blocks:
  assumes "last_played s = Some lp"
    and "minutes_between now lp < rat_of_int (song_separation_minutes rules)"
  shows "check_song_separation rules now s ctx =
           [violation now s ''Song Separation'' ''separation'' Critical
              (''Song played '' @ str_int (py_int (minutes_between now lp))
                 @ '' minutes ago (min: '' @ str_int (song_separation_minutes rules) @ '')'')]
         \<and> \<not> fst (can_play_song rules now s context)"
  using assms
  by (simp add: check_song_separation_def can_play_song_def Let_def violation_def)

theorem song_separation_blocks_witness:
  "last_played song_blue = Some 0
   \<and> minutes_between 600000000 0 < rat_of_int (song_separation_minutes rules_180)
   \<and> map message (check_song_separation rules_180 600000000 song_blue empty_context)
       = [''Song played 10 minutes ago (min: 180)'']
   \<and> map severity (check_song_separation rules_180 600000000 song_blue empty_context)
       = [Critical]
   \<and> \<not> fst (can_play_song rules_180 600000000 song_blue None)"
proof -
  have h1: "last_played song_blue = Some 0"
    by (simp add: song_blue_def)
  have h2: "minutes_between 600000000 0 < rat_of_int (song_separation_minutes rules_180)"
    by (simp add: minutes_between_def song_separation_minutes_def rules_180_def
        get_default_def)
  have m: "''Song played '' @ str_int (py_int (minutes_between 600000000 0))
             @ '' minutes ago (min: '' @ str_int (song_separation_minutes rules_180) @ '')''
           = ''Song played 10 minutes ago (min: 180)''"
    by code_simp
  from song_separation_blocks [OF h1 h2, of empty_context None] h1 h2 m
  show ?thesis by (simp add: violation_def)
qed

text \<open>
  Claim C10. For every song that never played (\<open>last_played\<close> is null), the song-separation
  check returns no violation, whatever the configured \<open>song_separation\<close>: song separation
  never blocks such a song.
\<close>

theorem never_played_no_song_separation:
  "last_played s = None \<Longrightarrow> check_song_separation rules now s ctx = []"
  by (simp add: check_song_separation_def)

theorem never_played_no_song_separation_witness:
  "last_played song_new = None
   \<and> check_song_separation rules_180 600000000 song_new empty_context = []"
proof -
  have h: "last_played song_new = None"
    by (simp add: song_new_def song_blue_def)
  from never_played_no_song_separation [OF h] h show ?thesis by simp
qed

subsection \<open>Genre rules\<close>

text \<open>
  Claim C4, at an input where the code departs from it. The recent songs are listed oldest
  first, as the auditor builds them and as the tempo and gender checks read them. With the
  default separation of 2 and the songs Pop, Pop, Rock, a Rock candidate follows a Rock song
  directly, and the genre check is silent: it reads the first two songs of the list, the
  oldest ones. With Rock, Pop, Pop it warns, about the song played three songs ago, which it
  reports as two songs ago.
\<close>

theorem genre_separation_reads_oldest_songs:
  "genre (last (get_default (recent_songs ctx_pop_pop_rock) [])) = genre song_new
   \<and> check_genre_rules empty_rules 0 song_new ctx_pop_pop_rock = []
   \<and> map message (check_genre_rules empty_rules 0 song_new ctx_rock_pop_pop)
       = [''Same genre '' @ [CHR 0x27] @ ''Rock'' @ [CHR 0x27]
            @ '' played 2 songs ago (min separation: 2)'']"
  by code_simp

subsection \<open>Selection\<close>


lemma first_playable_Some:
  "first_playable rules now ctx songs = Some s
   \<Longrightarrow> s \<in> set songs \<and> fst (can_play_song rules now s (Some ctx))"
  by (induction songs) (auto split: if_splits)








subsection \<open>Validation of the rules document\<close>

lemma no_missing_hours:
  "{0..23} \<subseteq> covered_hours sets \<Longrightarrow> filter (\<lambda>h. h \<notin> covered_hours sets) [0..23] = []"
  by (auto simp: filter_empty_conv)

lemma no_percentage_issues:
  "\<forall>r \<in> set sets. percentage_total r = 100 \<Longrightarrow> concat (map percentage_issue sets) = []"
  by (induction sets) (auto simp: percentage_issue_def)

lemma covered_hours_rules_update:
  "covered_hours (pre @ rset\<lparr>rs_rules := changed\<rparr> # post) = covered_hours (pre @ rset # post)"
  by (simp add: covered_hours_def)

text \<open>
  A rules document with no \<open>settings\<close> section, whose two hourly rule-sets cover the
  hours 0 to 23 and sum to 100 each, has an issue all the same: the missing section.
\<close>

theorem validate_rules_missing_settings_counterexample:
  "hourly_rules rules_no_settings = Some [set_day, set_night]
   \<and> {0..23} \<subseteq> covered_hours [set_day, set_night]
   \<and> list_all (\<lambda>r. percentage_total r = 100) [set_day, set_night]
   \<and> validate_rules rules_no_settings
       = [''Missing '' @ [CHR 0x27] @ ''settings'' @ [CHR 0x27] @ '' section'']"
  by code_simp

text \<open>
  Claim C3, amended. For every rules document that has a \<open>settings\<close> section, whose
  hourly rule-sets cover the hours 0 to 23 and whose every hourly rule-set has percentages
  summing to exactly 100, \<open>validate_rules\<close> returns no issue; and changing the rules of
  any single rule-set so that its percentages do not sum to 100 makes \<open>validate_rules\<close>
  return exactly one issue, which names that rule-set and its sum.
\<close>

theorem validate_rules_hourly_percentages:
  assumes "settings rules \<noteq> None"
    and "hourly_rules rules = Some sets"
    and "{0..23} \<subseteq> covered_hours sets"
    and "\<forall>r \<in> set sets. percentage_total r = 100"
  shows "validate_rules rules = []
    \<and> (\<forall>pre rset post changed.
          sets = pre @ rset # post \<and> percentage_total (rset\<lparr>rs_rules := changed\<rparr>) \<noteq> 100 \<longrightarrow>
          validate_rules
            (rules\<lparr>hourly_rules := Some (pre @ rset\<lparr>rs_rules := changed\<rparr> # post)\<rparr>) =
            [''Percentages for '' @ [CHR 0x27] @ str_opt (rs_name rset) @ [CHR 0x27]
               @ '' sum to '' @ str_int (percentage_total (rset\<lparr>rs_rules := changed\<rparr>))
               @ '', not 100''])"
proof -
  have loaded: "rules_loaded rules"
    using assms(1) by (simp add: rules_loaded_def)
  have a: "validate_rules rules = []"
    using assms loaded
    by (simp add: validate_rules_def no_missing_hours no_percentage_issues)
  have b: "validate_rules
             (rules\<lparr>hourly_rules := Some (pre @ rset\<lparr>rs_rules := changed\<rparr> # post)\<rparr>) =
            [''Percentages for '' @ [CHR 0x27] @ str_opt (rs_name rset) @ [CHR 0x27]
               @ '' sum to '' @ str_int (percentage_total (rset\<lparr>rs_rules := changed\<rparr>))
               @ '', not 100'']"
    if d: "sets = pre @ rset # post"
      and n: "percentage_total (rset\<lparr>rs_rules := changed\<rparr>) \<noteq> 100"
    for pre rset post changed
  proof -
    let ?rules' = "rules\<lparr>hourly_rules := Some (pre @ rset\<lparr>rs_rules := changed\<rparr> # post)\<rparr>"
    have l: "rules_loaded ?rules'"
      by (simp add: rules_loaded_def)
    have c: "{0..23} \<subseteq> covered_hours (pre @ rset\<lparr>rs_rules := changed\<rparr> # post)"
      using assms(3) d by (simp add: covered_hours_rules_update)
    have q: "percentage_issue (rset\<lparr>rs_rules := changed\<rparr>) =
            [''Percentages for '' @ [CHR 0x27] @ str_opt (rs_name rset) @ [CHR 0x27]
               @ '' sum to '' @ str_int (percentage_total (rset\<lparr>rs_rules := changed\<rparr>))
               @ '', not 100'']"
      using n by (simp add: percentage_issue_def Let_def)
    have p: "concat (map percentage_issue (pre @ rset\<lparr>rs_rules := changed\<rparr> # post)) =
               percentage_issue (rset\<lparr>rs_rules := changed\<rparr>)"
      using assms(4) d by (simp add: no_percentage_issues)
    show ?thesis
      using assms(1) l no_missing_hours [OF c]
      by (simp add: validate_rules_def p q del: map_append)
  qed
  from a b show ?thesis by blast
qed

theorem validate_rules_hourly_percentages_witness:
  "validate_rules rules_day_night = []
   \<and> validate_rules (rules_day_night\<lparr>hourly_rules := Some [set_day, set_night\<lparr>rs_rules :=
         Some [\<lparr>cr_category = Some ''Current'', cr_percentage = Some 90\<rparr>]\<rparr>]\<rparr>)
       = [''Percentages for '' @ [CHR 0x27] @ ''Night'' @ [CHR 0x27] @ '' sum to 90, not 100'']"
proof -
  let ?changed = "Some [\<lparr>cr_category = Some ''Current'', cr_percentage = Some 90\<rparr>]"
  have h1: "settings rules_day_night \<noteq> None"
    by (simp add: rules_day_night_def)
  have h2: "hourly_rules rules_day_night = Some [set_day, set_night]"
    by (simp add: rules_day_night_def)
  have h3: "{0..23} \<subseteq> covered_hours [set_day, set_night]"
    by code_simp
  have h4: "\<forall>r \<in> set [set_day, set_night]. percentage_total r = 100"
    by code_simp
  have h5: "[set_day, set_night] = [set_day] @ set_night # []
            \<and> percentage_total (set_night\<lparr>rs_rules := ?changed\<rparr>) \<noteq> 100"
    by code_simp
  have m: "''Percentages for '' @ [CHR 0x27] @ str_opt (rs_name set_night) @ [CHR 0x27]
             @ '' sum to '' @ str_int (percentage_total (set_night\<lparr>rs_rules := ?changed\<rparr>))
             @ '', not 100''
         = ''Percentages for '' @ [CHR 0x27] @ ''Night'' @ [CHR 0x27] @ '' sum to 90, not 100''"
    by code_simp
  have a: "validate_rules rules_day_night = []"
    using validate_rules_hourly_percentages [OF h1 h2 h3 h4] by (rule conjunct1)
  have k: "validate_rules (rules_day_night\<lparr>hourly_rules :=
               Some ([set_day] @ set_night\<lparr>rs_rules := ?changed\<rparr> # [])\<rparr>) =
            [''Percentages for '' @ [CHR 0x27] @ str_opt (rs_name set_night) @ [CHR 0x27]
               @ '' sum to '' @ str_int (percentage_total (set_night\<lparr>rs_rules := ?changed\<rparr>))
               @ '', not 100'']"
    using validate_rules_hourly_percentages [OF h1 h2 h3 h4] h5 by blast
  show ?thesis using a k unfolding m by simp
qed

subsection \<open>The replay of a week through the checker\<close>

lemma enumerate_drop:
  "k \<le> length xs \<Longrightarrow> List.enumerate k (drop k xs) = map (\<lambda>i. (i, xs ! i)) [k..<length xs]"
  by (auto simp: list_eq_iff_nth_eq nth_enumerate_eq)

lemma violations_loop_concat:
  "violations_loop rules now sorted_plays xs acc =
     acc @ concat (map (\<lambda>(i, play). case pl_song play of
                          None \<Rightarrow> []
                        | Some s \<Rightarrow>
                            map (violation_entry_of play s)
                              (filter (\<lambda>v. severity v = Error \<or> severity v = Critical)
                                 (snd (can_play_song rules now s
                                         (Some (replay_context sorted_plays i play)))))) xs)"
  by (induction xs arbitrary: acc) (auto simp: Let_def split: option.splits)

lemma find_violations_entries:
  "find_violations (Some eng) now plays =
     take 100 (concat (map (play_entries (eng_rules eng) now (sort_key played_at plays))
                         [1..<length plays]))"
proof (cases "plays = []")
  case True
  then show ?thesis by (simp add: find_violations_def)
next
  case False
  then have "1 \<le> length (sort_key played_at plays)"
    by (cases plays) auto
  from enumerate_drop [OF this] show ?thesis
    by (simp add: find_violations_def Let_def violations_loop_concat
        play_entries_def [abs_def] comp_def)
qed

lemma replay_window:
  "i \<le> length sorted_plays
   \<Longrightarrow> drop (i - 10) (take i sorted_plays) = map (\<lambda>j. sorted_plays ! j) [i - 10..<i]"
  by (auto simp: list_eq_iff_nth_eq)

lemma play_entries_severity:
  "e \<in> set (play_entries rules now sorted_plays i)
   \<Longrightarrow> ve_severity e = Error \<or> ve_severity e = Critical"
  by (auto simp: play_entries_def violation_entry_of_def split: option.splits)

text \<open>
  The first play of the window is not replayed: a week that holds one play, of an explicit
  song in a daypart that forbids explicit content, has no entry, though the checker finds a
  critical violation for that song in the context of the (no) plays before it.
\<close>

theorem find_violations_first_play_counterexample:
  "find_violations (Some engine_daypart) 5000 [play_explicit] = []
   \<and> map severity (snd (can_play_song rules_daypart 5000 song_explicit
         (Some (replay_context [play_explicit] 0 play_explicit)))) = [Critical]"
  by code_simp

text \<open>
  Claim C5, amended. For every set of historical plays, the violation pass of the auditor
  sorts the plays by \<open>played_at\<close> and evaluates the checker against each play but the
  first, in that order; a play with no song is passed over. The context of the play at
  index \<open>i\<close> holds exactly the plays at the up to ten indices before \<open>i\<close>. Only violations
  of severity error or critical are kept, and at most 100 entries are returned, the first
  ones.
\<close>

theorem find_violations_replay:
  "sorted (map played_at (sort_key played_at plays))
   \<and> mset (sort_key played_at plays) = mset plays
   \<and> find_violations (Some eng) now plays =
       take 100 (concat (map (play_entries (eng_rules eng) now (sort_key played_at plays))
                           [1..<length plays]))
   \<and> (\<forall>i \<le> length plays. \<forall>p.
         recent_plays (replay_context (sort_key played_at plays) i p) =
           Some (map (\<lambda>j. sort_key played_at plays ! j) [i - 10..<i]))
   \<and> length (find_violations (Some eng) now plays) \<le> 100
   \<and> (\<forall>e \<in> set (find_violations (Some eng) now plays).
         ve_severity e = Error \<or> ve_severity e = Critical)"
proof -
  have a: "find_violations (Some eng) now plays =
       take 100 (concat (map (play_entries (eng_rules eng) now (sort_key played_at plays))
                           [1..<length plays]))"
    by (rule find_violations_entries)
  have b: "\<forall>e \<in> set (find_violations (Some eng) now plays).
         ve_severity e = Error \<or> ve_severity e = Critical"
    unfolding a by (auto dest!: in_set_takeD play_entries_severity)
  have c: "\<forall>i \<le> length plays. \<forall>p.
         recent_plays (replay_context (sort_key played_at plays) i p) =
           Some (map (\<lambda>j. sort_key played_at plays ! j) [i - 10..<i])"
    by (simp add: replay_context_def Let_def replay_window)
  show ?thesis using a b c by simp
qed

theorem find_violations_replay_witness:
  "map ve_song (find_violations (Some engine_daypart) 5000 [play_explicit, play_clean])
     = [''Loud'']
   \<and> map ve_severity (find_violations (Some engine_daypart) 5000 [play_explicit, play_clean])
     = [Critical]
   \<and> map played_at (sort_key played_at [play_explicit, play_clean]) = [1000, 2000]"
proof -
  let ?ps = "[play_explicit, play_clean]"
  let ?r = "take 100 (concat (map (play_entries (eng_rules engine_daypart) 5000
                (sort_key played_at ?ps)) [1..<length ?ps]))"
  have e: "map ve_song ?r = [''Loud''] \<and> map ve_severity ?r = [Critical]"
    by code_simp
  have s: "map played_at (sort_key played_at ?ps) = [1000, 2000]"
    by code_simp
  from find_violations_replay [of ?ps engine_daypart 5000]
  have "find_violations (Some engine_daypart) 5000 ?ps = ?r"
    by (elim conjE)
  with e s show ?thesis by simp
qed

subsection \<open>The summary of a week\<close>

lemma skipped_le_total:
  "skipped_plays (calculate_summary plays all_songs)
   \<le> total_plays (calculate_summary plays all_songs)"
  by (simp add: calculate_summary_def count_where_def split: prod.splits)

lemma recommendations_defined:
  assumes "summary rep = Some sm" and "skipped_plays sm \<le> total_plays sm"
  shows "\<exists>recs. generate_recommendations rep = Inr recs"
proof -
  have "total_plays sm = 0
        \<Longrightarrow> \<not> rat_of_nat (skipped_plays sm) > rat_of_nat (total_plays sm) * (5 / 100)"
    using assms(2) by simp
  then show ?thesis
    using assms(1) by (auto simp: generate_recommendations_def Let_def)
qed

lemma weekly_report_with_database:
  assumes "aud_db aud = Some d"
  shows "\<exists>rep. generate_weekly_report aud now (Some e) =
             Inr (rep, aud\<lparr>aud_db := Some (save_report now rep d)\<rparr>)
           \<and> generated_at rep = now
           \<and> summary rep = Some (calculate_summary
                (filter (\<lambda>p. e - week \<le> played_at p \<and> played_at p \<le> e) (db_play_logs d))
                (filter (\<lambda>s. is_active s = Some True) (db_songs d)))"
proof -
  let ?plays = "filter (\<lambda>p. e - week \<le> played_at p \<and> played_at p \<le> e) (db_play_logs d)"
  let ?songs = "filter (\<lambda>s. is_active s = Some True) (db_songs d)"
  let ?rep = "\<lparr>start_date = e - week, end_date = e, generated_at = now,
      summary = Some (calculate_summary ?plays ?songs),
      category_breakdown = analyze_categories ?plays,
      gender_breakdown = analyze_gender ?plays,
      underplayed_songs = find_underplayed ?plays ?songs,
      rule_violations = find_violations (aud_rules_engine aud) now ?plays,
      recommendations = []\<rparr>"
  have "\<exists>recs. generate_recommendations ?rep = Inr recs"
    by (rule recommendations_defined [where sm = "calculate_summary ?plays ?songs"])
       (simp_all add: skipped_le_total)
  then obtain recs where "generate_recommendations ?rep = Inr recs" ..
  then show ?thesis
    using assms by (simp add: generate_weekly_report_def Let_def get_default_def)
qed

lemma weekly_report_without_database:
  assumes "aud_db aud = None"
  shows "\<exists>rep. generate_weekly_report aud now (Some e) = Inr (rep, aud)
           \<and> generated_at rep = now \<and> summary rep = None"
  using assms by (simp add: generate_weekly_report_def Let_def)

text \<open>
  Claim C7. Running the auditor twice for the same window, the second run at another time
  and on the database as the first run left it (the plays and the songs unchanged, the first
  report saved), gives the same summary statistics: total plays, unique songs and artists,
  library coverage, air time, averages, completed and skipped counts. Both runs return a
  report; only \<open>generated_at\<close> tells them apart.
\<close>

theorem weekly_summary_idempotent:
  "\<exists>r1 a1 r2 a2.
     generate_weekly_report aud t1 (Some e) = Inr (r1, a1)
   \<and> generate_weekly_report a1 t2 (Some e) = Inr (r2, a2)
   \<and> generated_at r1 = t1 \<and> generated_at r2 = t2
   \<and> summary r2 = summary r1"
proof (cases "aud_db aud")
  case None
  from weekly_report_without_database [OF None, of t1 e]
       weekly_report_without_database [OF None, of t2 e]
  show ?thesis by force
next
  case (Some d)
  from weekly_report_with_database [OF Some, of t1 e] obtain r1 where
    1: "generate_weekly_report aud t1 (Some e)
          = Inr (r1, aud\<lparr>aud_db := Some (save_report t1 r1 d)\<rparr>)"
       "generated_at r1 = t1"
       "summary r1 = Some (calculate_summary
          (filter (\<lambda>p. e - week \<le> played_at p \<and> played_at p \<le> e) (db_play_logs d))
          (filter (\<lambda>s. is_active s = Some True) (db_songs d)))"
    by blast
  let ?a1 = "aud\<lparr>aud_db := Some (save_report t1 r1 d)\<rparr>"
  have "aud_db ?a1 = Some (save_report t1 r1 d)"
    by simp
  from weekly_report_with_database [OF this, of t2 e] obtain r2 a2 where
    2: "generate_weekly_report ?a1 t2 (Some e) = Inr (r2, a2)"
       "generated_at r2 = t2"
       "summary r2 = Some (calculate_summary
          (filter (\<lambda>p. e - week \<le> played_at p \<and> played_at p \<le> e)
             (db_play_logs (save_report t1 r1 d)))
          (filter (\<lambda>s. is_active s = Some True) (db_songs (save_report t1 r1 d))))"
    by blast
  have "summary r2 = summary r1"
    using 1(3) 2(3) by (simp add: save_report_def)
  with 1 2 show ?thesis by blast
qed

theorem weekly_summary_idempotent_witness:
  "\<exists>r1 a1 r2 a2.
     generate_weekly_report auditor_three 9000 (Some 5000) = Inr (r1, a1)
   \<and> generate_weekly_report a1 9500 (Some 5000) = Inr (r2, a2)
   \<and> generated_at r1 = 9000 \<and> generated_at r2 = 9500
   \<and> summary r2 = summary r1
   \<and> map_option total_plays (summary r1) = Some 3
   \<and> map_option skipped_plays (summary r1) = Some 1"
proof -
  from weekly_summary_idempotent [of auditor_three 9000 5000 9500]
  obtain r1 a1 r2 a2 where
    f: "generate_weekly_report auditor_three 9000 (Some 5000) = Inr (r1, a1)"
       "generate_weekly_report a1 9500 (Some 5000) = Inr (r2, a2)"
       "generated_at r1 = 9000" "generated_at r2 = 9500" "summary r2 = summary r1"
    by blast
  have "map_sum id (\<lambda>x. (map_option total_plays (summary (fst x)),
                           map_option skipped_plays (summary (fst x))))
          (generate_weekly_report auditor_three 9000 (Some 5000)) = Inr (Some 3, Some 1)"
    by code_simp
  with f(1) have "map_option total_plays (summary r1) = Some 3"
    and "map_option skipped_plays (summary r1) = Some 1"
    by simp_all
  with f show ?thesis by blast
qed

subsection \<open>Recommendations\<close>

lemma gender_recommendations_length:
  "length (concat (map (\<lambda>(g, entry). if ge_percentage entry > 60
                                      then [GenderShare g (ge_percentage entry)] else []) gs))
   = length (filter (\<lambda>(g, entry). ge_percentage entry > 60) gs)"
  by (induction gs) auto

text \<open>
  A report of a week with no play of the category Current: the share of Current is 0, outside
  the band from 25 to 50, one threshold of the specification is breached, and the code
  recommends nothing, since it looks at the share only when the breakdown has an entry for
  Current.
\<close>

theorem recommendations_current_absent_counterexample:
  "generate_recommendations report_gold_only = Inr []
   \<and> spec_current_share report_gold_only = 0
   \<and> spec_breaches (the (summary report_gold_only)) report_gold_only = 1"
  by code_simp

text \<open>
  Claim C8, amended. For every audit report (its summary filled in, with no more skipped
  plays than plays), the recommendations are computed without an error and hold exactly one
  string per breached threshold: one when library coverage is below 50, one when more than
  10 songs are underplayed, one when the category breakdown has an entry for Current whose
  share is below 25 or above 50, one per gender whose share exceeds 60, one when more than 20
  rule violations are found, and one when the skipped plays exceed 5 percent of the plays.
\<close>

theorem recommendations_count:
  assumes "summary rep = Some sm" and "skipped_plays sm \<le> total_plays sm"
  shows "\<exists>recs. generate_recommendations rep = Inr recs \<and> length recs =
     (if library_coverage_percent sm < 50 then 1 else 0)
   + (if length (underplayed_songs rep) > 10 then 1 else 0)
   + (case map_of (category_breakdown rep) ''Current'' of
        None \<Rightarrow> 0
      | Some entry \<Rightarrow> if ce_percentage entry < 25 \<or> ce_percentage entry > 50 then 1 else 0)
   + length (filter (\<lambda>(g, entry). ge_percentage entry > 60) (gender_breakdown rep))
   + (if length (rule_violations rep) > 20 then 1 else 0)
   + (if rat_of_nat (skipped_plays sm) > rat_of_nat (total_plays sm) * (5 / 100)
      then 1 else 0)"
proof -
  have z: "total_plays sm = 0
           \<Longrightarrow> \<not> rat_of_nat (skipped_plays sm) > rat_of_nat (total_plays sm) * (5 / 100)"
    using assms(2) by simp
  show ?thesis
    using assms(1) z
    by (auto simp: generate_recommendations_def Let_def gender_recommendations_length
        split: option.splits)
qed

theorem recommendations_count_witness:
  "summary report_unbalanced = Some summary_unbalanced
   \<and> skipped_plays summary_unbalanced \<le> total_plays summary_unbalanced
   \<and> (\<exists>recs. generate_recommendations report_unbalanced = Inr recs \<and> length recs = 4)"
proof -
  have h1: "summary report_unbalanced = Some summary_unbalanced"
    by (simp add: report_unbalanced_def)
  have h2: "skipped_plays summary_unbalanced \<le> total_plays summary_unbalanced"
    by (simp add: summary_unbalanced_def)
  have n: "(if library_coverage_percent summary_unbalanced < 50 then 1 else 0)
   + (if length (underplayed_songs report_unbalanced) > 10 then 1 else 0)
   + (case map_of (category_breakdown report_unbalanced) ''Current'' of
        None \<Rightarrow> 0
      | Some entry \<Rightarrow> if ce_percentage entry < 25 \<or> ce_percentage entry > 50 then 1 else 0)
   + length (filter (\<lambda>(g, entry). ge_percentage entry > 60)
               (gender_breakdown report_unbalanced))
   + (if length (rule_violations report_unbalanced) > 20 then 1 else 0)
   + (if rat_of_nat (skipped_plays summary_unbalanced)
          > rat_of_nat (total_plays summary_unbalanced) * (5 / 100)
      then 1 else 0) = (4::nat)"
    by code_simp
  from recommendations_count [OF h1 h2] h1 h2 show ?thesis
    unfolding n by simp
qed

subsection \<open>Further properties of the checks, the selection and the auditor\<close>

text \<open>
  The hourly genre cap. When the genre rules hold a limit for the genre of the candidate and
  the count of that genre in the current hour has reached the limit (999 when the limit names
  none), the genre check emits a violation of severity error.
\<close>

theorem genre_hourly_cap:
  assumes "genre_rules rules = Some cfg"
    and "hourly_limits cfg = Some limits"
    and "limit \<in> set limits"
    and "genre s = Some (hl_genre limit)"
    and "get_default (get_default (hourly_genre_counts ctx) Map.empty (genre s)) 0
           \<ge> get_default (max_per_hour limit) 999"
  shows "violation now s ''Genre Hourly Limit'' ''genre'' Error
           (''Max '' @ str_opt (genre s) @ '' songs reached for this hour (''
              @ str_int (get_default (max_per_hour limit) 999) @ '')'')
         \<in> set (check_genre_rules rules now s ctx)"
  using assms
  by (auto simp: check_genre_rules_def Let_def limit_violations_def get_default_def
      intro!: bexI [of _ limit])

theorem genre_hourly_cap_witness:
  "violation 0 song_new ''Genre Hourly Limit'' ''genre'' Error
      ''Max Rock songs reached for this hour (4)''
     \<in> set (check_genre_rules rules_rock_cap 0 song_new ctx_four_rock)"
proof -
  have h1: "genre_rules rules_rock_cap
              = Some \<lparr>same_genre_separation = Some 2, hourly_limits = Some [rock_limit]\<rparr>"
    by (simp add: rules_rock_cap_def rock_limit_def empty_rules_def)
  have h2: "hourly_limits \<lparr>same_genre_separation = Some 2, hourly_limits = Some [rock_limit]\<rparr>
              = Some [rock_limit]"
    by simp
  have h3: "rock_limit \<in> set [rock_limit]"
    by simp
  have h4: "genre song_new = Some (hl_genre rock_limit)"
    by (simp add: song_new_def song_blue_def rock_limit_def)
  have h5: "get_default (get_default (hourly_genre_counts ctx_four_rock) Map.empty
                           (genre song_new)) 0
              \<ge> get_default (max_per_hour rock_limit) 999"
    by (simp add: ctx_four_rock_def empty_context_def get_default_def song_new_def
        song_blue_def rock_limit_def)
  have m: "''Max '' @ str_opt (genre song_new) @ '' songs reached for this hour (''
              @ str_int (get_default (max_per_hour rock_limit) 999) @ '')''
           = ''Max Rock songs reached for this hour (4)''"
    by code_simp
  from genre_hourly_cap [OF h1 h2 h3 h4 h5, of 0] show ?thesis
    unfolding m .
qed

text \<open>
  Explicit content in a restricted daypart. When an active dayparting rule covers the current
  hour and day and its condition sets \<open>explicit\<close> to false, a candidate flagged explicit
  gets a critical violation from the dayparting check and may not play, whatever the other
  checks find.
\<close>

theorem explicit_blocked_in_daypart:
  assumes "special_rules rules = Some sp"
    and "dayparting sp = Some dps"
    and "rule \<in> set dps"
    and "hour_in (current_hour ctx now) (get_default (dp_hours rule) [0..23])"
    and "get_default (day_of_week ctx) (weekday_of now)
           \<in> set (get_default (dp_days rule) [0..6])"
    and "dp_condition rule = Some cond"
    and "cond_explicit cond = Some False"
    and "explicit s = Some True"
  shows "violation now s (''Dayparting: '' @ get_default (dp_name rule) ''Unknown'')
           ''dayparting'' Critical ''Explicit content not allowed during this daypart''
           \<in> set (check_dayparting_rules rules now s ctx)
         \<and> \<not> fst (can_play_song rules now s (Some ctx))"
proof -
  have a: "violation now s (''Dayparting: '' @ get_default (dp_name rule) ''Unknown'')
           ''dayparting'' Critical ''Explicit content not allowed during this daypart''
           \<in> set (check_dayparting_rules rules now s ctx)"
    using assms
    by (auto simp: check_dayparting_rules_def Let_def daypart_violations_def get_default_def
        truthy_bool_def intro!: bexI [of _ rule])
  have "severity (violation now s (''Dayparting: '' @ get_default (dp_name rule) ''Unknown'')
           ''dayparting'' Critical ''Explicit content not allowed during this daypart'')
          = Critical"
    by (simp add: violation_def)
  with a show ?thesis
    by (auto simp: can_play_song_def Let_def list_ex_iff get_default_def)
qed

theorem explicit_blocked_in_daypart_witness:
  "violation 0 song_explicit ''Dayparting: Daytime'' ''dayparting'' Critical
      ''Explicit content not allowed during this daypart''
     \<in> set (check_dayparting_rules rules_daypart 0 song_explicit ctx_morning)
   \<and> \<not> fst (can_play_song rules_daypart 0 song_explicit (Some ctx_morning))"
proof -
  have h1: "special_rules rules_daypart = Some \<lparr>dayparting = Some [daytime_rule]\<rparr>"
    by (simp add: rules_daypart_def daytime_rule_def empty_rules_def)
  have h2: "dayparting \<lparr>dayparting = Some [daytime_rule]\<rparr> = Some [daytime_rule]"
    by simp
  have h3: "daytime_rule \<in> set [daytime_rule]"
    by simp
  have h4: "hour_in (current_hour ctx_morning 0) (get_default (dp_hours daytime_rule) [0..23])"
    by code_simp
  have h5: "get_default (day_of_week ctx_morning) (weekday_of 0)
              \<in> set (get_default (dp_days daytime_rule) [0..6])"
    by code_simp
  have h6: "dp_condition daytime_rule = Some \<lparr>cond_explicit = Some False\<rparr>"
    by (simp add: daytime_rule_def)
  have h7: "cond_explicit \<lparr>cond_explicit = Some False\<rparr> = Some False"
    by simp
  have h8: "explicit song_explicit = Some True"
    by (simp add: song_explicit_def song_blue_def)
  have n: "''Dayparting: '' @ get_default (dp_name daytime_rule) ''Unknown''
             = ''Dayparting: Daytime''"
    by code_simp
  from explicit_blocked_in_daypart [OF h1 h2 h3 h4 h5 h6 h7 h8] show ?thesis
    unfolding n .
qed

lemma try_categories_approved:
  "try_categories rules d now ctx recent_artists cats = Some s \<Longrightarrow>
     fst (can_play_song rules now s (Some ctx))
     \<and> (\<exists>cat \<in> set cats.
           s \<in> set (get_eligible_songs d now (Some cat) 180 (Some (take 5 recent_artists))
                      None))"
proof (induction cats)
  case Nil
  then show ?case by simp
next
  case (Cons c cs)
  then show ?case
    by (auto simp: Let_def split: option.splits dest: first_playable_Some)
qed

lemma eligible_song_rested:
  "s \<in> set (get_eligible_songs d now cat 180 excluded_artists excluded_song_ids) \<Longrightarrow>
     (case last_played s of None \<Rightarrow> True | Some lp \<Rightarrow> lp < now - 180 * 60000000)"
  by (auto simp: get_eligible_songs_def Let_def split: option.splits if_splits)

text \<open>
  A selected song has passed the checker and has rested: whenever \<open>select_next_song\<close>
  returns a song, \<open>can_play_song\<close> approves it in the context of the call, and it never
  played or played more than 180 minutes before the call.
\<close>

theorem select_next_song_approved:
  "select_next_song eng now shuffle ctx = Inr (Some s) \<Longrightarrow>
     fst (can_play_song (eng_rules eng) now s (Some ctx))
     \<and> (case last_played s of None \<Rightarrow> True | Some lp \<Rightarrow> lp < now - 180 * 60000000)"
  by (auto simp: select_next_song_def Let_def split: option.splits sum.splits
      dest!: try_categories_approved dest: eligible_song_rested)

theorem select_next_song_approved_witness:
  "select_next_song engine_select 600000000 rev empty_context = Inr (Some song_current)
   \<and> fst (can_play_song (eng_rules engine_select) 600000000 song_current (Some empty_context))
   \<and> last_played song_current = None"
proof -
  have e: "select_next_song engine_select 600000000 rev empty_context
             = Inr (Some song_current)"
    by code_simp
  have l: "last_played song_current = None"
    by (simp add: song_current_def song_blue_def)
  from select_next_song_approved [OF e] e l show ?thesis by simp
qed

text \<open>
  The counts of the summary. The total is the number of plays of the window, the library
  size the number of active songs, and neither the completed nor the skipped plays exceed
  the total.
\<close>

theorem summary_counts:
  "total_plays (calculate_summary plays all_songs) = length plays
   \<and> total_songs_in_library (calculate_summary plays all_songs) = length all_songs
   \<and> completed_plays (calculate_summary plays all_songs) \<le> length plays
   \<and> skipped_plays (calculate_summary plays all_songs) \<le> length plays"
  by (simp add: calculate_summary_def count_where_def split: prod.splits)

lemma underplayed_of_entry:
  "e \<in> set (underplayed_of plays s) \<Longrightarrow>
     actual_plays e < expected_plays e
     \<and> (expected_plays e = 7 \<and> up_category e = Some ''Current''
        \<or> expected_plays e = 3 \<and> up_category e = Some ''Power Gold'')"
  unfolding underplayed_of_def Let_def
  by (cases "category s = Some ''Current''"; cases "category s = Some ''Power Gold''";
      simp split: if_splits; force)

text \<open>
  Underplayed songs. The list holds at most 20 entries, in ascending order of their plays in
  the window; every entry is a Current song with fewer than 7 plays or a Power Gold song with
  fewer than 3.
\<close>

theorem find_underplayed_entries:
  "length (find_underplayed plays all_songs) \<le> 20
   \<and> sorted (map actual_plays (find_underplayed plays all_songs))
   \<and> (\<forall>e \<in> set (find_underplayed plays all_songs).
         actual_plays e < expected_plays e
         \<and> (expected_plays e = 7 \<and> up_category e = Some ''Current''
            \<or> expected_plays e = 3 \<and> up_category e = Some ''Power Gold''))"
proof -
  have s: "sorted (map actual_plays (find_underplayed plays all_songs))"
    unfolding find_underplayed_def by (simp add: take_map [symmetric] sorted_wrt_take)
  have sub: "set (find_underplayed plays all_songs)
               \<subseteq> (\<Union>s \<in> set all_songs. set (underplayed_of plays s))"
    unfolding find_underplayed_def using set_take_subset [of 20] by fastforce
  have m: "\<forall>e \<in> set (find_underplayed plays all_songs).
         actual_plays e < expected_plays e
         \<and> (expected_plays e = 7 \<and> up_category e = Some ''Current''
            \<or> expected_plays e = 3 \<and> up_category e = Some ''Power Gold'')"
  proof
    fix e
    assume "e \<in> set (find_underplayed plays all_songs)"
    with sub obtain s where "e \<in> set (underplayed_of plays s)"
      by blast
    then show "actual_plays e < expected_plays e
         \<and> (expected_plays e = 7 \<and> up_category e = Some ''Current''
            \<or> expected_plays e = 3 \<and> up_category e = Some ''Power Gold'')"
      by (rule underplayed_of_entry)
  qed
  have l: "length (find_underplayed plays all_songs) \<le> 20"
    by (simp add: find_underplayed_def)
  from l s m show ?thesis by blast
qed

theorem find_underplayed_entries_witness:
  "map (\<lambda>e. (up_title e, actual_plays e, expected_plays e))
     (find_underplayed plays_of_power [song_power, song_current, song_pop])
   = [(''Fresh'', 0, 7)]"
proof -
  let ?u = "find_underplayed plays_of_power [song_power, song_current, song_pop]"
  have e: "map (\<lambda>e. (up_title e, actual_plays e, expected_plays e)) ?u = [(''Fresh'', 0, 7)]"
    by code_simp
  from find_underplayed_entries [of plays_of_power "[song_power, song_current, song_pop]"]
  have "length ?u \<le> 20"
    by (rule conjunct1)
  with e show ?thesis by simp
qed

end
